theory Spec2Isabelle
  imports Main
begin

section \<open>The CEO access gate (src/components/ceo/CEOPinAuth.tsx)\<close>

text \<open>
  The component \<^verbatim>\<open>CEOPinAuth\<close> is a React function component: four pieces of
  \<^verbatim>\<open>useState\<close> state, event handlers that call the hosted backend, the bcrypt
  library and the browser's WebAuthn API, and a render function. The embedding keeps the
  component state in a record, runs each handler as a function from that record to the
  updated one, and records every call that leaves the component (backend requests,
  platform ceremonies, toasts, console output, the success callback) in a trace.

  An \<^verbatim>\<open>async\<close> handler is run to completion as one step. The inputs and the
  biometric button are disabled while \<^verbatim>\<open>loading\<close> is set, which every handler
  sets before its first \<^verbatim>\<open>await\<close> and clears on every path out, so no user event
  is handled in between.
\<close>

subsection \<open>The credential table\<close>

text \<open>
  One row of \<^verbatim>\<open>ceo_access_credentials\<close>, keyed by \<^verbatim>\<open>user_email\<close>. The
  biometric columns and the last-access column are nullable.
\<close>

record credential_record =
  pin_hash :: string
  biometric_credential_id :: "string option"
  biometric_public_key :: "string option"
  last_access_at :: "string option"
  access_count :: int

type_synonym credential_store = "string \<rightharpoonup> credential_record"

text \<open>
  How an awaited backend request ends: the backend serves it; the client resolves with an
  error object and null data (nothing is changed); or the awaited promise rejects, which
  the handler sees as an exception.
\<close>

datatype reply = Answered | ErrorResult | Raised

text \<open>
  Modelled from the spec: the backend itself is a hosted service, not code of this
  repository. Section 6 of the spec gives its interface: a read is fetch-by-identifier
  projecting the PIN hash, or the biometric fields in a separate call; a write is
  update-by-identifier setting the named fields. \<^verbatim>\<open>.single()\<close> yields an error and
  null data unless exactly one row matches. The result is \<open>None\<close> when the request
  raised, and otherwise the pair of \<^verbatim>\<open>data\<close> and whether \<^verbatim>\<open>error\<close> is set.
\<close>

definition select_pin_hash ::
  "reply \<Rightarrow> credential_store \<Rightarrow> string \<Rightarrow> (string option \<times> bool) option" where
  "select_pin_hash rp s email =
     (case rp of
        Raised \<Rightarrow> None
      | ErrorResult \<Rightarrow> Some (None, True)
      | Answered \<Rightarrow>
          (case s email of
             None \<Rightarrow> Some (None, True)
           | Some r \<Rightarrow> Some (Some (pin_hash r), False)))"

definition select_biometric ::
  "reply \<Rightarrow> credential_store \<Rightarrow> string \<Rightarrow>
     ((string option \<times> string option) option \<times> bool) option" where
  "select_biometric rp s email =
     (case rp of
        Raised \<Rightarrow> None
      | ErrorResult \<Rightarrow> Some (None, True)
      | Answered \<Rightarrow>
          (case s email of
             None \<Rightarrow> Some (None, True)
           | Some r \<Rightarrow> Some (Some (biometric_credential_id r, biometric_public_key r), False)))"

text \<open>
  What the component puts into the \<^verbatim>\<open>access_count\<close> field of the audit update.
  \<^verbatim>\<open>supabase.rpc(name, { x: n })\<close> builds a request and sends nothing until it is
  awaited; the component never awaits it, so the field holds the builder object and the
  remote function is never called.
\<close>

datatype payload_value = JsonNumber int | RpcBuilder string int

text \<open>
  Modelled from the spec: update-by-identifier. The payload is given as the change it
  makes to a row, or \<open>None\<close> when it does not fit the columns. A served update changes
  the row of the identifier when there is one and the payload fits, and nothing
  otherwise; an update that ends in an error result changes nothing; \<open>None\<close> when the
  request raised.
\<close>

definition update_row ::
  "reply \<Rightarrow> credential_store \<Rightarrow> string \<Rightarrow>
     (credential_record \<Rightarrow> credential_record) option \<Rightarrow> credential_store option" where
  "update_row rp s email payload =
     (case rp of
        Raised \<Rightarrow> None
      | ErrorResult \<Rightarrow> Some s
      | Answered \<Rightarrow>
          Some (case payload of
                  None \<Rightarrow> s
                | Some f \<Rightarrow> (case s email of None \<Rightarrow> s | Some r \<Rightarrow> s(email \<mapsto> f r))))"

text \<open>
  Modelled from the spec: the audit fields. \<^verbatim>\<open>access_count\<close> is an integer column:
  a payload whose \<^verbatim>\<open>access_count\<close> is a number sets the timestamp and the count,
  and one whose \<^verbatim>\<open>access_count\<close> is a request builder is not a row of the table,
  so the update is refused whole.
\<close>

definition audit_columns ::
  "string \<Rightarrow> payload_value \<Rightarrow> (credential_record \<Rightarrow> credential_record) option" where
  "audit_columns t c =
     (case c of
        JsonNumber n \<Rightarrow> Some (\<lambda>r. r\<lparr>last_access_at := Some t, access_count := n\<rparr>)
      | RpcBuilder name x \<Rightarrow> None)"

subsection \<open>The platform: base64 and WebAuthn ceremonies\<close>

text \<open>
  \<^verbatim>\<open>btoa\<close> and \<^verbatim>\<open>atob\<close> are the browser's base64 functions. A \<open>char\<close> is one
  byte, which is what \<^verbatim>\<open>String.fromCharCode(...new Uint8Array(_))\<close> produces and
  what \<^verbatim>\<open>charCodeAt(0)\<close> reads back.
\<close>

definition b64_alphabet :: string where
  "b64_alphabet = ''ABCDEFGHIJKLMNOPQRSTUVWXYZabcdefghijklmnopqrstuvwxyz0123456789+/''"

definition b64_char :: "nat \<Rightarrow> char" where
  "b64_char n = b64_alphabet ! (n mod 64)"

fun b64_find :: "char \<Rightarrow> string \<Rightarrow> nat \<Rightarrow> nat option" where
  "b64_find c [] n = None"
| "b64_find c (x # xs) n = (if c = x then Some n else b64_find c xs (Suc n))"

definition b64_index :: "char \<Rightarrow> nat option" where
  "b64_index c = b64_find c b64_alphabet 0"

fun btoa :: "string \<Rightarrow> string" where
  "btoa [] = []"
| "btoa [a] =
     (let x = (of_char a :: nat)
      in [b64_char (x div 4), b64_char ((x mod 4) * 16), CHR ''='', CHR ''=''])"
| "btoa [a, b] =
     (let x = (of_char a :: nat); y = (of_char b :: nat)
      in [b64_char (x div 4), b64_char ((x mod 4) * 16 + y div 16),
          b64_char ((y mod 16) * 4), CHR ''=''])"
| "btoa (a # b # c # rest) =
     (let x = (of_char a :: nat); y = (of_char b :: nat); z = (of_char c :: nat)
      in [b64_char (x div 4), b64_char ((x mod 4) * 16 + y div 16),
          b64_char ((y mod 16) * 4 + z div 64), b64_char (z mod 64)] @ btoa rest)"

text \<open>
  \<^verbatim>\<open>atob\<close> is the forgiving base64 decoder: ASCII whitespace is dropped, one or two
  trailing \<^verbatim>\<open>=\<close> are dropped when the length is a multiple of four, and the call
  throws (\<open>None\<close>) when the remaining length is 1 modulo 4 or a character is outside
  the base64 alphabet.
\<close>

definition is_ascii_whitespace :: "char \<Rightarrow> bool" where
  "is_ascii_whitespace c = (of_char c \<in> {9, 10, 12, 13, 32 :: nat})"

definition strip_padding :: "string \<Rightarrow> string" where
  "strip_padding d =
     (if length d mod 4 = 0 \<and> d \<noteq> [] \<and> last d = CHR ''='' then
        (if butlast d \<noteq> [] \<and> last (butlast d) = CHR ''='' then butlast (butlast d)
         else butlast d)
      else d)"

fun decode_sextets :: "nat list \<Rightarrow> string" where
  "decode_sextets (a # b # c # d # rest) =
     [char_of (a * 4 + b div 16), char_of ((b mod 16) * 16 + c div 4),
      char_of ((c mod 4) * 64 + d)] @ decode_sextets rest"
| "decode_sextets [a, b, c] = [char_of (a * 4 + b div 16), char_of ((b mod 16) * 16 + c div 4)]"
| "decode_sextets [a, b] = [char_of (a * 4 + b div 16)]"
| "decode_sextets _ = []"

definition atob :: "string \<Rightarrow> string option" where
  "atob s =
     (let d = strip_padding (filter (\<lambda>c. \<not> is_ascii_whitespace c) s)
      in if length d mod 4 = 1 then None
         else map_option decode_sextets (those (map b64_index d)))"

text \<open>
  A WebAuthn ceremony (\<^verbatim>\<open>navigator.credentials.create\<close> or \<^verbatim>\<open>.get\<close>) rejects
  (the user cancels, the platform times out), resolves with null, or resolves with its
  result object.
\<close>

datatype 'a ceremony = CeremonyRaised | CeremonyNull | CeremonyResult 'a

record public_key_credential =
  credential_id :: string
  attestationObject :: string

subsection \<open>Component state, props and the outside world\<close>

datatype effect =
    VerifyPinCall string
  | SelectPinHash string
  | UpdateAudit string string payload_value
  | SelectBiometric string
  | UpdateBiometric string string string
  | CredentialsCreate string
  | CredentialsGet string
  | MessageSuccess string
  | ConsoleError string
  | OnSuccess

text \<open>
  \<open>pin\<close>, \<open>error\<close>, \<open>loading\<close> and \<open>biometricAvailable\<close> are the component's
  \<^verbatim>\<open>useState\<close> cells. \<open>focused\<close> is the position of the input that a call of
  \<^verbatim>\<open>focus()\<close> last moved the focus to. \<open>store\<close> is the backend's table. \<open>trace\<close> lists,
  oldest first, the calls that left the component: \<open>VerifyPinCall p\<close> for a call of
  \<^verbatim>\<open>verifyPin(p)\<close>, the backend requests with their arguments
  (\<open>UpdateAudit email t c\<close> is the update whose payload has \<open>t\<close> for
  \<^verbatim>\<open>last_access_at\<close> and \<open>c\<close> for \<^verbatim>\<open>access_count\<close>), the platform ceremonies, the toasts of
  \<^verbatim>\<open>message.success\<close>, the labels of \<^verbatim>\<open>console.error\<close>, and \<open>OnSuccess\<close> for
  \<^verbatim>\<open>setTimeout(() => onSuccess(), 500)\<close>: the timer is never cancelled, so each
  scheduling is one invocation of the callback.
\<close>

record world =
  pin :: "string list"
  error :: string
  loading :: bool
  biometricAvailable :: bool
  focused :: "nat option"
  store :: credential_store
  trace :: "effect list"

text \<open>
  What one handler run meets outside the component: the \<^verbatim>\<open>userEmail\<close> prop, the
  clock, \<^verbatim>\<open>bcrypt.compare\<close>, how each backend request ends, whether
  \<^verbatim>\<open>window.PublicKeyCredential\<close> exists, what the capability probe resolves to
  (\<open>None\<close> when it rejects), and the two ceremonies as functions of the part of their
  request that varies (the user name; the decoded credential id).
\<close>

record env =
  userEmail :: string
  now :: string
  bcrypt_compare :: "string \<Rightarrow> string \<Rightarrow> bool"
  select_pin_reply :: reply
  update_audit_reply :: reply
  select_biometric_reply :: reply
  update_biometric_reply :: reply
  PublicKeyCredential :: bool
  isUserVerifyingPlatformAuthenticatorAvailable :: "bool option"
  credentials_create :: "string \<Rightarrow> public_key_credential ceremony"
  credentials_get :: "string \<Rightarrow> unit ceremony"

definition empty_pin :: "string list" where
  "empty_pin = ['''', '''', '''', '''', '''', '''']"

definition initial :: "credential_store \<Rightarrow> world" where
  "initial s =
     \<lparr>pin = empty_pin, error = '''', loading = False, biometricAvailable = False,
      focused = None, store = s, trace = []\<rparr>"

subsection \<open>Handlers\<close>

definition checkBiometricAvailability :: "env \<Rightarrow> world \<Rightarrow> world" where
  "checkBiometricAvailability e w =
     (if PublicKeyCredential e then
        (case isUserVerifyingPlatformAuthenticatorAvailable e of
           None \<Rightarrow> w
         | Some available \<Rightarrow> w\<lparr>biometricAvailable := available\<rparr>)
      else w)"

text \<open>The mount effect: probe the platform, focus the first input.\<close>

definition mount :: "env \<Rightarrow> world \<Rightarrow> world" where
  "mount e w = (checkBiometricAvailability e w)\<lparr>focused := Some 0\<rparr>"

definition is_digit :: "char \<Rightarrow> bool" where
  "is_digit c = (c \<in> set ''0123456789'')"

text \<open>\<^verbatim>\<open>/^\d$/.test(value)\<close>: exactly one character, an ASCII digit.\<close>

definition single_digit :: "string \<Rightarrow> bool" where
  "single_digit v = (case v of [c] \<Rightarrow> is_digit c | _ \<Rightarrow> False)"

text \<open>
  \<^verbatim>\<open>inputRefs.current[index]?.focus()\<close> after an \<^verbatim>\<open>await\<close>. The inputs are
  rendered with \<^verbatim>\<open>disabled={loading}\<close>, the component has rendered again by the time
  an awaited request has come back, and the browser ignores \<^verbatim>\<open>focus()\<close> on a
  disabled input. (A change or keydown event comes from an enabled input and the mount
  effect runs on the first render, so in \<open>mount\<close>, \<open>handlePinChange\<close> and
  \<open>handleKeyDown\<close> the call lands.)
\<close>

definition focus_input :: "nat \<Rightarrow> world \<Rightarrow> world" where
  "focus_input index w = (if loading w then w else w\<lparr>focused := Some index\<rparr>)"

definition verifyPin :: "env \<Rightarrow> string \<Rightarrow> world \<Rightarrow> world" where
  "verifyPin e pinValue w0 =
     (let w = w0\<lparr>loading := True, error := '''',
                 trace := trace w0 @ [VerifyPinCall pinValue, SelectPinHash (userEmail e)]\<rparr>
      in case select_pin_hash (select_pin_reply e) (store w) (userEmail e) of
           None \<Rightarrow>
             w\<lparr>error := ''Authentication error'', loading := False,
               trace := trace w @ [ConsoleError ''PIN verification error:'']\<rparr>
         | Some (credentials, fetchError) \<Rightarrow>
             (case (if fetchError then None else credentials) of
                None \<Rightarrow> w\<lparr>error := ''Access credentials not found'', loading := False\<rparr>
              | Some hash \<Rightarrow>
                  if bcrypt_compare e pinValue hash then
                    (let increment = RpcBuilder ''increment'' 1;
                         w1 = w\<lparr>trace := trace w @
                                [UpdateAudit (userEmail e) (now e) increment]\<rparr>
                     in case update_row (update_audit_reply e) (store w1) (userEmail e)
                               (audit_columns (now e) increment) of
                          None \<Rightarrow>
                            w1\<lparr>error := ''Authentication error'', loading := False,
                               trace := trace w1 @ [ConsoleError ''PIN verification error:'']\<rparr>
                        | Some s' \<Rightarrow>
                            w1\<lparr>store := s', loading := False,
                               trace := trace w1 @ [MessageSuccess ''Access Granted'', OnSuccess]\<rparr>)
                  else
                    (focus_input 0
                       (w\<lparr>error := ''Invalid PIN. Access Denied.'', pin := empty_pin\<rparr>))
                      \<lparr>loading := False\<rparr>))"

text \<open>
  \<^verbatim>\<open>newPin[index] = value\<close>: the view renders one input for each position of
  \<open>pin\<close>, so \<open>index\<close> is a position of the list when the handler runs.
\<close>

definition handlePinChange :: "env \<Rightarrow> nat \<Rightarrow> string \<Rightarrow> world \<Rightarrow> world" where
  "handlePinChange e index v w =
     (if length v > 1 then w
      else if v \<noteq> '''' \<and> \<not> single_digit v then w
      else
        (let newPin = (pin w)[index := v];
             w1 = w\<lparr>pin := newPin, error := ''''\<rparr>;
             w2 = (if v \<noteq> '''' \<and> index < 5 then w1\<lparr>focused := Some (index + 1)\<rparr> else w1)
         in if list_all (\<lambda>digit. digit \<noteq> '''') newPin \<and> index = 5
            then verifyPin e (concat newPin) w2
            else w2))"

definition handleKeyDown :: "nat \<Rightarrow> string \<Rightarrow> world \<Rightarrow> world" where
  "handleKeyDown index key w =
     (if key = ''Backspace'' \<and> pin w ! index = '''' \<and> index > 0
      then w\<lparr>focused := Some (index - 1)\<rparr>
      else w)"

definition registerBiometric :: "env \<Rightarrow> world \<Rightarrow> world" where
  "registerBiometric e w0 =
     (let w = w0\<lparr>trace := trace w0 @ [CredentialsCreate (userEmail e)]\<rparr>
      in case credentials_create e (userEmail e) of
           CeremonyRaised \<Rightarrow>
             w\<lparr>error := ''Failed to register biometric'', loading := False,
               trace := trace w @ [ConsoleError ''Biometric registration error:'']\<rparr>
         | CeremonyNull \<Rightarrow> w\<lparr>loading := False\<rparr>
         | CeremonyResult credential \<Rightarrow>
             (let key = btoa (attestationObject credential);
                  w1 = w\<lparr>trace := trace w @
                         [UpdateBiometric (userEmail e) (credential_id credential) key]\<rparr>
              in case update_row (update_biometric_reply e) (store w1) (userEmail e)
                        (Some (\<lambda>r. r\<lparr>biometric_credential_id := Some (credential_id credential),
                                      biometric_public_key := Some key\<rparr>)) of
                   None \<Rightarrow>
                     w1\<lparr>error := ''Failed to register biometric'', loading := False,
                        trace := trace w1 @ [ConsoleError ''Biometric registration error:'']\<rparr>
                 | Some s' \<Rightarrow>
                     w1\<lparr>store := s', loading := False,
                        trace := trace w1 @
                          [MessageSuccess ''Biometric registered successfully'', OnSuccess]\<rparr>))"

definition authenticateBiometric :: "env \<Rightarrow> string \<Rightarrow> world \<Rightarrow> world" where
  "authenticateBiometric e credentialId w =
     (case atob credentialId of
        None \<Rightarrow>
          w\<lparr>error := ''Biometric verification failed'', loading := False,
            trace := trace w @ [ConsoleError ''Biometric authentication error:'']\<rparr>
      | Some bytes \<Rightarrow>
          (let w1 = w\<lparr>trace := trace w @ [CredentialsGet bytes]\<rparr>
           in case credentials_get e bytes of
                CeremonyRaised \<Rightarrow>
                  w1\<lparr>error := ''Biometric verification failed'', loading := False,
                     trace := trace w1 @ [ConsoleError ''Biometric authentication error:'']\<rparr>
              | CeremonyNull \<Rightarrow> w1\<lparr>loading := False\<rparr>
              | CeremonyResult assertion \<Rightarrow>
                  w1\<lparr>loading := False,
                     trace := trace w1 @ [MessageSuccess ''Biometric verified'', OnSuccess]\<rparr>))"

text \<open>
  \<^verbatim>\<open>!credentials?.biometric_credential_id\<close> holds when the read gave no row, or a
  row whose credential id is null or the empty string.
\<close>

definition handleBiometricAuth :: "env \<Rightarrow> world \<Rightarrow> world" where
  "handleBiometricAuth e w0 =
     (let w = w0\<lparr>loading := True, error := '''',
                 trace := trace w0 @ [SelectBiometric (userEmail e)]\<rparr>
      in case select_biometric (select_biometric_reply e) (store w) (userEmail e) of
           None \<Rightarrow>
             w\<lparr>error := ''Biometric authentication failed'', loading := False,
               trace := trace w @ [ConsoleError ''Biometric auth error:'']\<rparr>
         | Some (credentials, fetchError) \<Rightarrow>
             (case credentials of
                None \<Rightarrow> registerBiometric e w
              | Some (None, public_key) \<Rightarrow> registerBiometric e w
              | Some (Some cid, public_key) \<Rightarrow>
                  if cid = '''' then registerBiometric e w
                  else authenticateBiometric e cid w))"

subsection \<open>The view and a session of user events\<close>

text \<open>
  What the render function shows, as far as the state decides it: the alert (title and
  description) when \<open>error\<close> is non-empty, the six inputs with their values and whether
  they are disabled, and whether the biometric block is rendered.
\<close>

record view =
  alert :: "(string \<times> string) option"
  inputs :: "string list"
  inputs_disabled :: bool
  biometric_option :: bool

definition render :: "world \<Rightarrow> view" where
  "render w =
     \<lparr>alert = (if error w \<noteq> '''' then Some (''Access Denied'', error w) else None),
      inputs = pin w,
      inputs_disabled = loading w,
      biometric_option = biometricAvailable w\<rparr>"

datatype event =
    PinChange nat string
  | KeyDown nat string
  | BiometricClick
  | AlertClose

text \<open>
  An event reaches its handler only when its element is rendered and enabled: an input
  exists for each position of \<open>pin\<close> and is disabled while loading; the button exists
  when the biometric block is rendered and ignores clicks while loading; the alert's
  close button exists while the alert does.
\<close>

definition fire :: "env \<Rightarrow> event \<Rightarrow> world \<Rightarrow> world" where
  "fire e ev w =
     (case ev of
        PinChange index v \<Rightarrow>
          if index < length (inputs (render w)) \<and> \<not> inputs_disabled (render w)
          then handlePinChange e index v w else w
      | KeyDown index key \<Rightarrow>
          if index < length (inputs (render w)) \<and> \<not> inputs_disabled (render w)
          then handleKeyDown index key w else w
      | BiometricClick \<Rightarrow>
          if biometric_option (render w) \<and> \<not> loading w then handleBiometricAuth e w else w
      | AlertClose \<Rightarrow>
          if alert (render w) \<noteq> None then w\<lparr>error := ''''\<rparr> else w)"

text \<open>A session: the events in order, each with what its handler meets outside.\<close>

fun run :: "(env \<times> event) list \<Rightarrow> world \<Rightarrow> world" where
  "run [] w = w"
| "run ((e, ev) # rest) w = run rest (fire e ev w)"

subsection \<open>Reading a trace and the table\<close>

text \<open>
  What of a run can be observed from outside the table: the component state and the
  trace.
\<close>

definition observable ::
  "world \<Rightarrow> string list \<times> string \<times> bool \<times> bool \<times> nat option \<times> effect list" where
  "observable w = (pin w, error w, loading w, biometricAvailable w, focused w, trace w)"

text \<open>Invocations of the success callback, and grants (the success toasts).\<close>

definition invocations :: "effect list \<Rightarrow> nat" where
  "invocations t = length (filter (\<lambda>x. x = OnSuccess) t)"

fun is_grant :: "effect \<Rightarrow> bool" where
  "is_grant (MessageSuccess m) = True"
| "is_grant _ = False"

definition grants :: "effect list \<Rightarrow> nat" where
  "grants t = length (filter is_grant t)"

definition one_grant_or_none :: "effect list \<Rightarrow> bool" where
  "one_grant_or_none ext = (invocations ext = grants ext \<and> invocations ext \<le> 1)"

text \<open>Calls of \<^verbatim>\<open>verifyPin\<close>, registration ceremonies and assertion ceremonies.\<close>

fun is_verify_call :: "effect \<Rightarrow> bool" where
  "is_verify_call (VerifyPinCall p) = True"
| "is_verify_call _ = False"

definition verify_calls :: "effect list \<Rightarrow> nat" where
  "verify_calls t = length (filter is_verify_call t)"

fun is_create :: "effect \<Rightarrow> bool" where
  "is_create (CredentialsCreate name) = True"
| "is_create _ = False"

fun is_get :: "effect \<Rightarrow> bool" where
  "is_get (CredentialsGet bytes) = True"
| "is_get _ = False"

definition registrations :: "effect list \<Rightarrow> nat" where
  "registrations t = length (filter is_create t)"

definition assertions :: "effect list \<Rightarrow> nat" where
  "assertions t = length (filter is_get t)"

text \<open>The credential id on file for an identifier: the row's, when it is not empty.\<close>

definition credential_id_on_file :: "credential_store \<Rightarrow> string \<Rightarrow> string option" where
  "credential_id_on_file s email =
     (case s email of
        None \<Rightarrow> None
      | Some r \<Rightarrow>
          (case biometric_credential_id r of
             None \<Rightarrow> None
           | Some cid \<Rightarrow> if cid = '''' then None else Some cid))"

text \<open>
  Typing the characters \<open>ds\<close> in order, one into each position from the first; the
  \<open>k\<close>-th keystroke meets the \<open>k\<close>-th of \<open>es\<close> outside.
\<close>

definition typing :: "env list \<Rightarrow> string \<Rightarrow> (env \<times> event) list" where
  "typing es ds = zip es (map (\<lambda>(index, d). PinChange index [d]) (enumerate 0 ds))"

subsection \<open>A concrete scenario\<close>

text \<open>
  The scenario of the spec: the identifier \<^verbatim>\<open>ceo@example.com\<close>, a row whose hash
  was made from \<^verbatim>\<open>123456\<close>, a backend that serves every request and a platform
  whose ceremonies succeed. \<^verbatim>\<open>bcrypt.compare\<close> is a library function; here a hash
  names the PIN it was made from.
\<close>

definition scenario_env :: env where
  "scenario_env =
     \<lparr>userEmail = ''ceo@example.com'', now = ''2025-01-01T00:00:00.000Z'',
      bcrypt_compare = (\<lambda>p h. h = ''hash of '' @ p),
      select_pin_reply = Answered, update_audit_reply = Answered,
      select_biometric_reply = Answered, update_biometric_reply = Answered,
      PublicKeyCredential = True,
      isUserVerifyingPlatformAuthenticatorAvailable = Some True,
      credentials_create =
        (\<lambda>name. CeremonyResult \<lparr>credential_id = ''YWJj'', attestationObject = ''xyz''\<rparr>),
      credentials_get = (\<lambda>bytes. CeremonyResult ())\<rparr>"

definition scenario_record :: credential_record where
  "scenario_record =
     \<lparr>pin_hash = ''hash of 123456'', biometric_credential_id = None,
      biometric_public_key = None, last_access_at = None, access_count = 0\<rparr>"

definition scenario_store :: credential_store where
  "scenario_store = [''ceo@example.com'' \<mapsto> scenario_record]"

text \<open>
  The same row after a biometric registration, and a platform whose registration returns
  a credential with the id \<^verbatim>\<open>ab-d\<close>: \<^verbatim>\<open>credential.id\<close> is the base64url
  encoding of the raw id, here of the bytes 69 BF 9D.
\<close>

definition registered_record :: credential_record where
  "registered_record =
     scenario_record\<lparr>biometric_credential_id := Some ''YWJj'',
                     biometric_public_key := Some ''eHl6''\<rparr>"

definition registered_store :: credential_store where
  "registered_store = [''ceo@example.com'' \<mapsto> registered_record]"

definition urlsafe_env :: env where
  "urlsafe_env =
     scenario_env\<lparr>credentials_create :=
       (\<lambda>name. CeremonyResult \<lparr>credential_id = ''ab-d'', attestationObject = ''xyz''\<rparr>)\<rparr>"

text \<open>The gate with all six digits entered.\<close>

definition entered_world :: world where
  "entered_world = (initial scenario_store)\<lparr>pin := [''1'', ''2'', ''3'', ''4'', ''5'', ''6'']\<rparr>"

text \<open>
  Four sessions: the six digits typed in order; six zeros typed in order; the sixth
  position filled before the fifth; and, after the digits typed in order, the sixth digit
  deleted and typed again.
\<close>

definition in_order :: "(env \<times> event) list" where
  "in_order =
     [(scenario_env, PinChange 0 ''1''), (scenario_env, PinChange 1 ''2''),
      (scenario_env, PinChange 2 ''3''), (scenario_env, PinChange 3 ''4''),
      (scenario_env, PinChange 4 ''5''), (scenario_env, PinChange 5 ''6'')]"

definition wrong_pin :: "(env \<times> event) list" where
  "wrong_pin =
     [(scenario_env, PinChange 0 ''0''), (scenario_env, PinChange 1 ''0''),
      (scenario_env, PinChange 2 ''0''), (scenario_env, PinChange 3 ''0''),
      (scenario_env, PinChange 4 ''0''), (scenario_env, PinChange 5 ''0'')]"

definition out_of_order :: "(env \<times> event) list" where
  "out_of_order =
     [(scenario_env, PinChange 0 ''1''), (scenario_env, PinChange 1 ''2''),
      (scenario_env, PinChange 2 ''3''), (scenario_env, PinChange 3 ''4''),
      (scenario_env, PinChange 5 ''6''), (scenario_env, PinChange 4 ''5'')]"

definition retyped_last :: "(env \<times> event) list" where
  "retyped_last = in_order @ [(scenario_env, PinChange 5 ''''), (scenario_env, PinChange 5 ''6'')]"

section \<open>Facts about the handlers\<close>

subsection \<open>Base64\<close>

lemma btoa_vectors:
  "btoa ''Man'' = ''TWFu'' \<and> btoa ''Ma'' = ''TWE='' \<and> btoa ''M'' = ''TQ==''"
  by (simp add: b64_char_def b64_alphabet_def)

lemma atob_vectors:
  "atob ''TWFu'' = Some ''Man'' \<and> atob ''TWE='' = Some ''Ma'' \<and> atob ''TQ'' = Some ''M''
   \<and> atob ''TQ='' = None \<and> atob ''TWFuT'' = None"
  by code_simp

lemma atob_YWJj: "atob ''YWJj'' = Some ''abc''"
  by code_simp

lemma atob_urlsafe: "atob ''ab-d'' = None"
  by code_simp

lemma btoa_nonempty:
  "bytes \<noteq> [] \<Longrightarrow> btoa bytes \<noteq> []"
  by (induction bytes rule: btoa.induct) (simp_all add: Let_def)

lemmas scenario_defs =
  scenario_env_def scenario_store_def scenario_record_def registered_record_def
  registered_store_def urlsafe_env_def initial_def empty_pin_def

lemmas run_defs =
  fire_def render_def handlePinChange_def handleKeyDown_def verifyPin_def audit_columns_def focus_input_def
  handleBiometricAuth_def registerBiometric_def authenticateBiometric_def
  select_pin_hash_def select_biometric_def update_row_def single_digit_def is_digit_def
  mount_def checkBiometricAvailability_def Let_def

subsection \<open>Every handler leaves with loading cleared\<close>

lemma verifyPin_not_loading:
  "\<not> loading (verifyPin e p w)"
  by (simp add: verifyPin_def audit_columns_def focus_input_def Let_def select_pin_hash_def update_row_def
      split: reply.splits option.splits)

lemma handlePinChange_not_loading:
  "\<not> loading w \<Longrightarrow> \<not> loading (handlePinChange e index v w)"
  by (simp add: handlePinChange_def Let_def verifyPin_not_loading)

lemma registerBiometric_not_loading:
  "\<not> loading (registerBiometric e w)"
  by (simp add: registerBiometric_def Let_def update_row_def
      split: reply.splits ceremony.splits)

lemma authenticateBiometric_not_loading:
  "\<not> loading (authenticateBiometric e cid w)"
  by (simp add: authenticateBiometric_def Let_def split: option.splits ceremony.splits)

lemma handleBiometricAuth_not_loading:
  "\<not> loading (handleBiometricAuth e w)"
  by (simp add: handleBiometricAuth_def Let_def registerBiometric_not_loading
      authenticateBiometric_not_loading split: option.splits prod.splits)

lemma fire_not_loading:
  "\<not> loading w \<Longrightarrow> \<not> loading (fire e ev w)"
  by (cases ev)
    (simp_all add: fire_def handleKeyDown_def handlePinChange_not_loading
      handleBiometricAuth_not_loading)

lemma verifyPin_focused:
  "focused (verifyPin e p w) = focused w"
  by (simp add: verifyPin_def audit_columns_def focus_input_def Let_def select_pin_hash_def
      update_row_def split: reply.splits option.splits)

subsection \<open>Only the mount effect sets the capability flag\<close>

lemma verifyPin_biometricAvailable:
  "biometricAvailable (verifyPin e p w) = biometricAvailable w"
  by (simp add: verifyPin_def audit_columns_def focus_input_def Let_def split: option.splits prod.splits)

lemma handlePinChange_biometricAvailable:
  "biometricAvailable (handlePinChange e index v w) = biometricAvailable w"
  by (simp add: handlePinChange_def Let_def verifyPin_biometricAvailable)

lemma registerBiometric_biometricAvailable:
  "biometricAvailable (registerBiometric e w) = biometricAvailable w"
  by (simp add: registerBiometric_def Let_def split: ceremony.splits option.splits)

lemma authenticateBiometric_biometricAvailable:
  "biometricAvailable (authenticateBiometric e cid w) = biometricAvailable w"
  by (simp add: authenticateBiometric_def Let_def split: ceremony.splits option.splits)

lemma handleBiometricAuth_biometricAvailable:
  "biometricAvailable (handleBiometricAuth e w) = biometricAvailable w"
  by (simp add: handleBiometricAuth_def Let_def registerBiometric_biometricAvailable
      authenticateBiometric_biometricAvailable split: option.splits prod.splits)

lemma fire_biometricAvailable:
  "biometricAvailable (fire e ev w) = biometricAvailable w"
  by (cases ev)
    (simp_all add: fire_def handleKeyDown_def handlePinChange_biometricAvailable
      handleBiometricAuth_biometricAvailable)

lemma run_biometricAvailable:
  "biometricAvailable (run evs w) = biometricAvailable w"
proof (induction evs arbitrary: w)
  case Nil
  show ?case by simp
next
  case (Cons a evs)
  obtain e ev where a: "a = (e, ev)" by (cases a)
  have "biometricAvailable (run (a # evs) w) = biometricAvailable (fire e ev w)"
    unfolding a run.simps by (rule Cons.IH)
  then show ?case by (simp add: fire_biometricAvailable)
qed

subsection \<open>Calls of the verifier\<close>

lemma verifyPin_calls:
  "verify_calls (trace (verifyPin e p w)) = verify_calls (trace w) + 1"
  by (simp add: verifyPin_def audit_columns_def focus_input_def verify_calls_def Let_def select_pin_hash_def update_row_def
      split: reply.splits option.splits)

lemma verifyPin_trace_prefix:
  "\<exists>rest. trace (verifyPin e p w) = trace w @ VerifyPinCall p # rest"
  by (simp add: verifyPin_def audit_columns_def focus_input_def Let_def select_pin_hash_def update_row_def
      split: reply.splits option.splits)

lemma handlePinChange_calls:
  "verify_calls (trace (handlePinChange e index v w)) =
     verify_calls (trace w) +
       (if length v \<le> 1 \<and> (v = '''' \<or> single_digit v)
           \<and> list_all (\<lambda>digit. digit \<noteq> '''') ((pin w)[index := v]) \<and> index = 5
        then 1 else 0)"
proof -
  have one: "single_digit v \<Longrightarrow> length v = 1"
    by (cases v) (auto simp add: single_digit_def split: list.splits)
  have none: "\<not> single_digit []"
    by (simp add: single_digit_def)
  show ?thesis
    using one none by (auto simp add: handlePinChange_def Let_def verifyPin_calls)
qed

lemma fire_digit:
  assumes "is_digit d" "index < 5" "length (pin w) = 6" "\<not> loading w"
  shows "fire e (PinChange index [d]) w =
           w\<lparr>pin := (pin w)[index := [d]], error := '''', focused := Some (index + 1)\<rparr>"
  using assms
  by (simp add: fire_def render_def handlePinChange_def single_digit_def Let_def)

lemma fire_last_digit:
  assumes "is_digit d" "length (pin w) = 6" "\<not> loading w"
    "list_all (\<lambda>digit. digit \<noteq> '''') ((pin w)[5 := [d]])"
  shows "fire e (PinChange 5 [d]) w =
           verifyPin e (concat ((pin w)[5 := [d]])) (w\<lparr>pin := (pin w)[5 := [d]], error := ''''\<rparr>)"
  using assms
  by (simp add: fire_def render_def handlePinChange_def single_digit_def Let_def)

lemma six_elements:
  assumes "length xs = 6"
  obtains a b c d f g where "xs = [a, b, c, d, f, g]"
proof -
  from assms obtain a r1 where 1: "xs = a # r1" "length r1 = 5" by (cases xs) auto
  then obtain b r2 where 2: "r1 = b # r2" "length r2 = 4" by (cases r1) auto
  then obtain c r3 where 3: "r2 = c # r3" "length r3 = 3" by (cases r2) auto
  then obtain d r4 where 4: "r3 = d # r4" "length r4 = 2" by (cases r3) auto
  then obtain f r5 where 5: "r4 = f # r5" "length r5 = 1" by (cases r4) auto
  then obtain g where 6: "r5 = [g]" by (cases r5) auto
  from 1 2 3 4 5 6 that show thesis by simp
qed

lemma typed_prefix:
  assumes start: "pin w = empty_pin" "\<not> loading w"
    and digits: "is_digit a" "is_digit b" "is_digit c" "is_digit d" "is_digit f"
  shows "run [(e1, PinChange 0 [a])] w =
           w\<lparr>pin := [[a], '''', '''', '''', '''', ''''], error := '''', focused := Some 1\<rparr>"
    and "run [(e1, PinChange 0 [a]), (e2, PinChange 1 [b])] w =
           w\<lparr>pin := [[a], [b], '''', '''', '''', ''''], error := '''', focused := Some 2\<rparr>"
    and "run [(e1, PinChange 0 [a]), (e2, PinChange 1 [b]), (e3, PinChange 2 [c])] w =
           w\<lparr>pin := [[a], [b], [c], '''', '''', ''''], error := '''', focused := Some 3\<rparr>"
    and "run [(e1, PinChange 0 [a]), (e2, PinChange 1 [b]), (e3, PinChange 2 [c]),
              (e4, PinChange 3 [d])] w =
           w\<lparr>pin := [[a], [b], [c], [d], '''', ''''], error := '''', focused := Some 4\<rparr>"
    and "run [(e1, PinChange 0 [a]), (e2, PinChange 1 [b]), (e3, PinChange 2 [c]),
              (e4, PinChange 3 [d]), (e5, PinChange 4 [f])] w =
           w\<lparr>pin := [[a], [b], [c], [d], [f], ''''], error := '''', focused := Some 5\<rparr>"
  using start digits by (simp_all add: fire_digit empty_pin_def)

subsection \<open>Grants and invocations of the success callback\<close>

lemma counts_append:
  "invocations (xs @ ys) = invocations xs + invocations ys"
  "grants (xs @ ys) = grants xs + grants ys"
  by (simp_all add: invocations_def grants_def)

lemma verifyPin_grant:
  "\<exists>ext. trace (verifyPin e p w) = trace w @ ext \<and> one_grant_or_none ext"
  by (simp add: verifyPin_def audit_columns_def focus_input_def Let_def select_pin_hash_def update_row_def one_grant_or_none_def
      invocations_def grants_def split: reply.splits option.splits)

lemma handlePinChange_shape:
  "\<exists>p u. trace u = trace w \<and>
     (handlePinChange e index v w = u \<or> handlePinChange e index v w = verifyPin e p u)"
proof -
  let ?w1 = "w\<lparr>pin := (pin w)[index := v], error := ''''\<rparr>"
  let ?w2 = "if v \<noteq> '''' \<and> index < 5 then ?w1\<lparr>focused := Some (index + 1)\<rparr> else ?w1"
  have t: "trace ?w2 = trace w" by simp
  have "handlePinChange e index v w = w \<or> handlePinChange e index v w = ?w2
      \<or> handlePinChange e index v w = verifyPin e (concat ((pin w)[index := v])) ?w2"
    by (simp add: handlePinChange_def Let_def)
  with t show ?thesis by blast
qed

lemma handlePinChange_grant:
  "\<exists>ext. trace (handlePinChange e index v w) = trace w @ ext \<and> one_grant_or_none ext"
proof -
  obtain p u where u: "trace u = trace w"
    and shape: "handlePinChange e index v w = u \<or> handlePinChange e index v w = verifyPin e p u"
    using handlePinChange_shape by blast
  from shape show ?thesis
  proof
    assume "handlePinChange e index v w = u"
    with u have "trace (handlePinChange e index v w) = trace w @ [] \<and> one_grant_or_none []"
      by (simp add: one_grant_or_none_def invocations_def grants_def)
    then show ?thesis by blast
  next
    assume "handlePinChange e index v w = verifyPin e p u"
    with verifyPin_grant [of e p u] u show ?thesis by simp
  qed
qed

lemma registerBiometric_grant:
  "\<exists>ext. trace (registerBiometric e w) = trace w @ ext \<and> one_grant_or_none ext"
  by (simp add: registerBiometric_def Let_def update_row_def one_grant_or_none_def
      invocations_def grants_def split: reply.splits ceremony.splits)

lemma authenticateBiometric_grant:
  "\<exists>ext. trace (authenticateBiometric e cid w) = trace w @ ext \<and> one_grant_or_none ext"
  by (simp add: authenticateBiometric_def Let_def one_grant_or_none_def
      invocations_def grants_def split: option.splits ceremony.splits)

lemma handleBiometricAuth_grant:
  "\<exists>ext. trace (handleBiometricAuth e w) = trace w @ ext \<and> one_grant_or_none ext"
proof -
  let ?w = "w\<lparr>loading := True, error := '''', trace := trace w @ [SelectBiometric (userEmail e)]\<rparr>"
  have none: "one_grant_or_none [SelectBiometric (userEmail e), ConsoleError ''Biometric auth error:'']"
    by (simp add: one_grant_or_none_def invocations_def grants_def)
  have ext: "one_grant_or_none ext \<Longrightarrow> one_grant_or_none (SelectBiometric (userEmail e) # ext)" for ext
    by (simp add: one_grant_or_none_def invocations_def grants_def)
  have shape: "handleBiometricAuth e w =
        ?w\<lparr>error := ''Biometric authentication failed'', loading := False,
           trace := trace ?w @ [ConsoleError ''Biometric auth error:'']\<rparr>
      \<or> handleBiometricAuth e w = registerBiometric e ?w
      \<or> (\<exists>cid. handleBiometricAuth e w = authenticateBiometric e cid ?w)"
    by (simp add: handleBiometricAuth_def Let_def split: option.split prod.split) blast
  then consider (raised) "handleBiometricAuth e w =
        ?w\<lparr>error := ''Biometric authentication failed'', loading := False,
           trace := trace ?w @ [ConsoleError ''Biometric auth error:'']\<rparr>"
    | (register) "handleBiometricAuth e w = registerBiometric e ?w"
    | (authenticate) cid where "handleBiometricAuth e w = authenticateBiometric e cid ?w"
    by blast
  then show ?thesis
  proof cases
    case raised
    then have "trace (handleBiometricAuth e w) =
        trace w @ [SelectBiometric (userEmail e), ConsoleError ''Biometric auth error:'']"
      by simp
    with none show ?thesis by blast
  next
    case register
    from registerBiometric_grant [of e ?w] obtain ext0
      where "trace (registerBiometric e ?w) = trace ?w @ ext0" "one_grant_or_none ext0"
      by blast
    with register have "trace (handleBiometricAuth e w) = trace w @ (SelectBiometric (userEmail e) # ext0)
        \<and> one_grant_or_none (SelectBiometric (userEmail e) # ext0)"
      by (simp add: ext)
    then show ?thesis by blast
  next
    case (authenticate cid)
    from authenticateBiometric_grant [of e cid ?w] obtain ext0
      where "trace (authenticateBiometric e cid ?w) = trace ?w @ ext0" "one_grant_or_none ext0"
      by blast
    with authenticate have "trace (handleBiometricAuth e w) = trace w @ (SelectBiometric (userEmail e) # ext0)
        \<and> one_grant_or_none (SelectBiometric (userEmail e) # ext0)"
      by (simp add: ext)
    then show ?thesis by blast
  qed
qed

lemma fire_grant:
  "\<exists>ext. trace (fire e ev w) = trace w @ ext \<and> one_grant_or_none ext"
proof -
  have idle: "one_grant_or_none []"
    by (simp add: one_grant_or_none_def invocations_def grants_def)
  show ?thesis
  proof (cases ev)
    case (PinChange index v)
    then show ?thesis
      using handlePinChange_grant [of e index v w] idle by (simp add: fire_def)
  next
    case (KeyDown index key)
    then show ?thesis
      using idle by (simp add: fire_def handleKeyDown_def)
  next
    case BiometricClick
    then show ?thesis
      using handleBiometricAuth_grant [of e w] idle by (simp add: fire_def)
  next
    case AlertClose
    then show ?thesis
      using idle by (simp add: fire_def)
  qed
qed

lemma run_grants:
  "invocations (trace (run evs w)) + grants (trace w) =
     grants (trace (run evs w)) + invocations (trace w)"
proof (induction evs arbitrary: w)
  case Nil
  show ?case by simp
next
  case (Cons a evs)
  obtain e ev where a: "a = (e, ev)" by (cases a)
  obtain ext where ext: "trace (fire e ev w) = trace w @ ext" "one_grant_or_none ext"
    using fire_grant by blast
  have "invocations (trace (run evs (fire e ev w))) + grants (trace (fire e ev w)) =
      grants (trace (run evs (fire e ev w))) + invocations (trace (fire e ev w))"
    by (rule Cons.IH)
  with ext show ?case
    by (simp add: a counts_append one_grant_or_none_def)
qed

subsection \<open>Ceremonies of the biometric flow\<close>

lemma registerBiometric_ceremonies:
  "registrations (trace (registerBiometric e w)) = registrations (trace w) + 1
   \<and> assertions (trace (registerBiometric e w)) = assertions (trace w)"
  by (simp add: registerBiometric_def Let_def update_row_def registrations_def assertions_def
      split: reply.splits ceremony.splits)

lemma authenticateBiometric_ceremonies:
  "registrations (trace (authenticateBiometric e cid w)) = registrations (trace w)
   \<and> assertions (trace (authenticateBiometric e cid w)) =
       assertions (trace w) + (if atob cid = None then 0 else 1)
   \<and> store (authenticateBiometric e cid w) = store w"
  by (simp add: authenticateBiometric_def Let_def registrations_def assertions_def
      split: option.splits ceremony.splits)

lemma registerBiometric_stores:
  assumes "store w (userEmail e) = Some r"
    and "credentials_create e (userEmail e) = CeremonyResult c"
    and "update_biometric_reply e = Answered"
  shows "store (registerBiometric e w) (userEmail e) =
           Some (r\<lparr>biometric_credential_id := Some (credential_id c),
                   biometric_public_key := Some (btoa (attestationObject c))\<rparr>)"
  using assms by (simp add: registerBiometric_def Let_def update_row_def)

section \<open>The claims\<close>

subsection \<open>C1: the PIN scenario\<close>

text \<open>
  The verifier on the scenario, from any state of the gate. The identifier is
  \<^verbatim>\<open>ceo@example.com\<close> and its stored hash was made from \<^verbatim>\<open>123456\<close>
  (\<^verbatim>\<open>bcrypt.compare\<close> accepts that PIN and no other); the read is served and the
  audit write does not raise. Then \<^verbatim>\<open>verifyPin("123456")\<close> issues the read, exactly
  one audit update, the toast \<^verbatim>\<open>Access Granted\<close> and the success callback, and
  shows no error; \<^verbatim>\<open>verifyPin("000000")\<close> issues the read only, shows
  \<^verbatim>\<open>Invalid PIN. Access Denied.\<close> and clears the six positions. The audit update
  carries the clock's value for the timestamp and the request builder for the count, and
  leaves the table as it was.
\<close>

lemma pin_scenario:
  assumes email: "userEmail e = ''ceo@example.com''"
    and row: "store w ''ceo@example.com'' = Some r"
    and hash: "\<forall>p. bcrypt_compare e p (pin_hash r) = (p = ''123456'')"
    and served: "select_pin_reply e = Answered"
    and audit: "update_audit_reply e \<noteq> Raised"
  shows "trace (verifyPin e ''123456'' w) =
           trace w @ [VerifyPinCall ''123456'', SelectPinHash ''ceo@example.com'',
                      UpdateAudit ''ceo@example.com'' (now e) (RpcBuilder ''increment'' 1),
                      MessageSuccess ''Access Granted'', OnSuccess]
         \<and> error (verifyPin e ''123456'' w) = ''''
         \<and> store (verifyPin e ''123456'' w) = store w
         \<and> trace (verifyPin e ''000000'' w) =
           trace w @ [VerifyPinCall ''000000'', SelectPinHash ''ceo@example.com'']
         \<and> error (verifyPin e ''000000'' w) = ''Invalid PIN. Access Denied.''
         \<and> pin (verifyPin e ''000000'' w) = ['''', '''', '''', '''', '''', '''']
         \<and> store (verifyPin e ''000000'' w) = store w"
proof -
  have yes: "bcrypt_compare e ''123456'' (pin_hash r)"
    and no: "\<not> bcrypt_compare e ''000000'' (pin_hash r)"
    using hash by simp_all
  from audit have cases: "update_audit_reply e = Answered \<or> update_audit_reply e = ErrorResult"
    by (cases "update_audit_reply e") simp_all
  have granted: "trace (verifyPin e ''123456'' w) =
           trace w @ [VerifyPinCall ''123456'', SelectPinHash ''ceo@example.com'',
                      UpdateAudit ''ceo@example.com'' (now e) (RpcBuilder ''increment'' 1),
                      MessageSuccess ''Access Granted'', OnSuccess]
         \<and> error (verifyPin e ''123456'' w) = ''''
         \<and> store (verifyPin e ''123456'' w) = store w"
    using cases email row yes served
    by (auto simp add: verifyPin_def audit_columns_def select_pin_hash_def update_row_def Let_def)
  have denied: "trace (verifyPin e ''000000'' w) =
           trace w @ [VerifyPinCall ''000000'', SelectPinHash ''ceo@example.com'']
         \<and> error (verifyPin e ''000000'' w) = ''Invalid PIN. Access Denied.''
         \<and> pin (verifyPin e ''000000'' w) = ['''', '''', '''', '''', '''', '''']
         \<and> store (verifyPin e ''000000'' w) = store w"
    using email row no served
    by (simp add: verifyPin_def focus_input_def select_pin_hash_def Let_def empty_pin_def)
  from granted denied show ?thesis by simp
qed

text \<open>
  Claim C1: with a stored hash made from \<^verbatim>\<open>123456\<close>, submitting
  \<^verbatim>\<open>123456\<close> results in Granted and exactly one audit update (last-access
  timestamp set, access count incremented) being issued; submitting \<^verbatim>\<open>000000\<close>
  results in Denied, the entry input cleared, and no audit update. The code does all of
  this but the increment. In the scenario, with every request served, the one audit
  update it issues has the request builder \<^verbatim>\<open>supabase.rpc('increment', { x: 1 })\<close>
  as the value of \<^verbatim>\<open>access_count\<close> (line 91): the builder is never awaited, no
  increment is requested, and the record's access count is 0 before and after.
\<close>

theorem audit_update_without_increment:
  "trace (verifyPin scenario_env ''123456'' (initial scenario_store)) =
     [VerifyPinCall ''123456'', SelectPinHash ''ceo@example.com'',
      UpdateAudit ''ceo@example.com'' ''2025-01-01T00:00:00.000Z''
        (RpcBuilder ''increment'' 1),
      MessageSuccess ''Access Granted'', OnSuccess]
   \<and> map_option access_count (store (initial scenario_store) ''ceo@example.com'') = Some 0
   \<and> map_option access_count
        (store (verifyPin scenario_env ''123456'' (initial scenario_store)) ''ceo@example.com'') =
       Some 0
   \<and> trace (verifyPin scenario_env ''000000'' (initial scenario_store)) =
     [VerifyPinCall ''000000'', SelectPinHash ''ceo@example.com'']
   \<and> error (verifyPin scenario_env ''000000'' (initial scenario_store)) =
     ''Invalid PIN. Access Denied.''
   \<and> pin (verifyPin scenario_env ''000000'' (initial scenario_store)) =
     ['''', '''', '''', '''', '''', '''']"
  by (simp add: verifyPin_def audit_columns_def focus_input_def select_pin_hash_def
      update_row_def Let_def initial_def empty_pin_def scenario_env_def scenario_store_def
      scenario_record_def)

subsection \<open>C2: what the user sees on a denial\<close>

text \<open>
  Claim C2, as amended. When the read is served, the alert after a verification is
  decided as follows. With no row for the identifier it is titled \<^verbatim>\<open>Access Denied\<close>
  and described \<^verbatim>\<open>Access credentials not found\<close>; with a row and a PIN that does
  not match it carries the same title and the description
  \<^verbatim>\<open>Invalid PIN. Access Denied.\<close>. The two denials share the title only: the
  description tells a missing record from a wrong PIN.
\<close>

theorem denial_messages:
  assumes served: "select_pin_reply e = Answered"
  shows "alert (render (verifyPin e p w)) =
           (case store w (userEmail e) of
              None \<Rightarrow> Some (''Access Denied'', ''Access credentials not found'')
            | Some r \<Rightarrow>
                if bcrypt_compare e p (pin_hash r) then
                  (if update_audit_reply e = Raised
                   then Some (''Access Denied'', ''Authentication error'') else None)
                else Some (''Access Denied'', ''Invalid PIN. Access Denied.''))"
proof (cases "store w (userEmail e)")
  case None
  then show ?thesis
    using served by (simp add: verifyPin_def audit_columns_def focus_input_def select_pin_hash_def render_def Let_def)
next
  case (Some r)
  show ?thesis
  proof (cases "update_audit_reply e")
    case Answered
    with Some served show ?thesis
      by (simp add: verifyPin_def audit_columns_def focus_input_def select_pin_hash_def update_row_def render_def Let_def)
  next
    case ErrorResult
    with Some served show ?thesis
      by (simp add: verifyPin_def audit_columns_def focus_input_def select_pin_hash_def update_row_def render_def Let_def)
  next
    case Raised
    with Some served show ?thesis
      by (simp add: verifyPin_def audit_columns_def focus_input_def select_pin_hash_def update_row_def render_def Let_def)
  qed
qed

text \<open>The amended statement at \<^verbatim>\<open>000000\<close>, without and with a row.\<close>

theorem denial_messages_witness:
  "alert (render (verifyPin scenario_env ''000000'' (initial Map.empty))) =
     Some (''Access Denied'', ''Access credentials not found'')
   \<and> alert (render (verifyPin scenario_env ''000000'' (initial scenario_store))) =
     Some (''Access Denied'', ''Invalid PIN. Access Denied.'')"
proof -
  have served: "select_pin_reply scenario_env = Answered"
    by (simp add: scenario_env_def)
  have a: "alert (render (verifyPin scenario_env ''000000'' (initial Map.empty))) =
     Some (''Access Denied'', ''Access credentials not found'')"
    using denial_messages [OF served, of "''000000''" "initial Map.empty"]
    by (simp add: initial_def)
  have b: "alert (render (verifyPin scenario_env ''000000'' (initial scenario_store))) =
     Some (''Access Denied'', ''Invalid PIN. Access Denied.'')"
    using denial_messages [OF served, of "''000000''" "initial scenario_store"]
    by (simp add: initial_def scenario_store_def scenario_env_def scenario_record_def)
  from a b show ?thesis by simp
qed

text \<open>
  Claim C2 as stated fails: the same PIN \<^verbatim>\<open>000000\<close>, submitted once against an
  empty table and once against a row whose hash it does not match, gives two alerts that
  differ.
\<close>

theorem denial_messages_differ:
  "alert (render (verifyPin scenario_env ''000000'' (initial Map.empty))) =
     Some (''Access Denied'', ''Access credentials not found'')
   \<and> alert (render (verifyPin scenario_env ''000000'' (initial scenario_store))) =
     Some (''Access Denied'', ''Invalid PIN. Access Denied.'')
   \<and> alert (render (verifyPin scenario_env ''000000'' (initial Map.empty))) \<noteq>
     alert (render (verifyPin scenario_env ''000000'' (initial scenario_store)))"
  by (simp add: verifyPin_def audit_columns_def focus_input_def select_pin_hash_def render_def Let_def initial_def
      scenario_env_def scenario_store_def scenario_record_def)

subsection \<open>C3: the entry state after a verification\<close>

text \<open>
  Claim C3, as amended. After a PIN verification attempt the entry state is six empty
  positions when a record was found and the hash did not match; after a match, and when
  no record is found or the read fails, the entry state is left as entered.
\<close>

theorem entry_state_after_verification:
  "pin (verifyPin e p w) =
     (if select_pin_reply e = Answered then
        (case store w (userEmail e) of
           None \<Rightarrow> pin w
         | Some r \<Rightarrow>
             if bcrypt_compare e p (pin_hash r) then pin w
             else ['''', '''', '''', '''', '''', ''''])
      else pin w)"
proof (cases "select_pin_reply e")
  case Answered
  show ?thesis
  proof (cases "store w (userEmail e)")
    case None
    with Answered show ?thesis
      by (simp add: verifyPin_def select_pin_hash_def Let_def)
  next
    case (Some r)
    with Answered show ?thesis
      by (cases "update_audit_reply e")
        (simp_all add: verifyPin_def audit_columns_def focus_input_def select_pin_hash_def
          update_row_def Let_def empty_pin_def)
  qed
next
  case ErrorResult
  then show ?thesis
    by (simp add: verifyPin_def select_pin_hash_def Let_def)
next
  case Raised
  then show ?thesis
    by (simp add: verifyPin_def select_pin_hash_def Let_def)
qed

text \<open>
  Claim C3 as stated fails. After the successful verification of \<^verbatim>\<open>123456\<close> (the
  trace ends in the grant) the six positions still hold the digits. With no record for
  the identifier the typed digits stay as well, and the focus stays on the sixth
  position. After \<^verbatim>\<open>000000\<close> is typed against the record, the positions are
  cleared and the focus is still on the sixth position: \<^verbatim>\<open>focus()\<close> was called on
  a disabled input.
\<close>

theorem entry_state_not_reset:
  "pin (verifyPin scenario_env ''123456'' entered_world) =
     [''1'', ''2'', ''3'', ''4'', ''5'', ''6'']
   \<and> trace (verifyPin scenario_env ''123456'' entered_world) =
     [VerifyPinCall ''123456'', SelectPinHash ''ceo@example.com'',
      UpdateAudit ''ceo@example.com'' ''2025-01-01T00:00:00.000Z''
        (RpcBuilder ''increment'' 1),
      MessageSuccess ''Access Granted'', OnSuccess]
   \<and> pin (run in_order (mount scenario_env (initial Map.empty))) =
     [''1'', ''2'', ''3'', ''4'', ''5'', ''6'']
   \<and> error (run in_order (mount scenario_env (initial Map.empty))) =
     ''Access credentials not found''
   \<and> focused (run in_order (mount scenario_env (initial Map.empty))) = Some 5
   \<and> pin (run wrong_pin (mount scenario_env (initial scenario_store))) =
     ['''', '''', '''', '''', '''', '''']
   \<and> error (run wrong_pin (mount scenario_env (initial scenario_store))) =
     ''Invalid PIN. Access Denied.''
   \<and> focused (run wrong_pin (mount scenario_env (initial scenario_store))) = Some 5"
proof -
  have a: "pin (verifyPin scenario_env ''123456'' entered_world) =
     [''1'', ''2'', ''3'', ''4'', ''5'', ''6'']
   \<and> trace (verifyPin scenario_env ''123456'' entered_world) =
     [VerifyPinCall ''123456'', SelectPinHash ''ceo@example.com'',
      UpdateAudit ''ceo@example.com'' ''2025-01-01T00:00:00.000Z''
        (RpcBuilder ''increment'' 1),
      MessageSuccess ''Access Granted'', OnSuccess]"
    by (simp add: verifyPin_def audit_columns_def select_pin_hash_def update_row_def Let_def
        initial_def entered_world_def scenario_env_def scenario_store_def scenario_record_def)
  have b: "pin (run in_order (mount scenario_env (initial Map.empty))) =
     [''1'', ''2'', ''3'', ''4'', ''5'', ''6'']
   \<and> error (run in_order (mount scenario_env (initial Map.empty))) =
     ''Access credentials not found''
   \<and> focused (run in_order (mount scenario_env (initial Map.empty))) = Some 5"
    by (simp add: in_order_def run_defs scenario_defs)
  have c: "pin (run wrong_pin (mount scenario_env (initial scenario_store))) =
     ['''', '''', '''', '''', '''', '''']
   \<and> error (run wrong_pin (mount scenario_env (initial scenario_store))) =
     ''Invalid PIN. Access Denied.''
   \<and> focused (run wrong_pin (mount scenario_env (initial scenario_store))) = Some 5"
    by (simp add: wrong_pin_def run_defs scenario_defs)
  from a b c show ?thesis by simp
qed

subsection \<open>C4: when the verifier is called\<close>

text \<open>
  What the guard at line 53 does. An input event calls \<^verbatim>\<open>verifyPin\<close> exactly when
  it is an accepted edit of the sixth position that leaves all six positions filled, and
  then once; so a call is made only when all six positions are filled. Typing six digits
  in order into the empty gate makes no call of any kind during the first five digits and
  exactly one call of \<^verbatim>\<open>verifyPin\<close>, with the six digits, on the sixth.
\<close>

lemma verification_trigger:
  assumes start: "pin w = empty_pin" "\<not> loading w"
    and ds: "length ds = 6" "list_all is_digit ds"
    and es: "length es = 6"
  shows "verify_calls (trace (handlePinChange e index v u)) =
           verify_calls (trace u) +
             (if length v \<le> 1 \<and> (v = '''' \<or> single_digit v)
                 \<and> list_all (\<lambda>digit. digit \<noteq> '''') ((pin u)[index := v]) \<and> index = 5
              then 1 else 0)
         \<and> (\<forall>k<6. trace (run (take k (typing es ds)) w) = trace w)
         \<and> verify_calls (trace (run (typing es ds) w)) = verify_calls (trace w) + 1
         \<and> (\<exists>rest. trace (run (typing es ds) w) = trace w @ VerifyPinCall ds # rest)"
proof -
  from ds(1) obtain a b c d f g where ds_eq: "ds = [a, b, c, d, f, g]"
    by (rule six_elements)
  from es obtain e1 e2 e3 e4 e5 e6 where es_eq: "es = [e1, e2, e3, e4, e5, e6]"
    by (rule six_elements)
  from ds(2) ds_eq have dig: "is_digit a" "is_digit b" "is_digit c" "is_digit d" "is_digit f"
    "is_digit g"
    by simp_all
  let ?t = "[(e1, PinChange 0 [a]), (e2, PinChange 1 [b]), (e3, PinChange 2 [c]),
             (e4, PinChange 3 [d]), (e5, PinChange 4 [f]), (e6, PinChange 5 [g])]"
  have typing_eq: "typing es ds = ?t"
    by (simp add: typing_def ds_eq es_eq eval_nat_numeral)
  note pre = typed_prefix [OF start dig(1-5)]
  let ?w5 = "w\<lparr>pin := [[a], [b], [c], [d], [f], ''''], error := '''', focused := Some 5\<rparr>"
  have split6: "run ?t w = fire e6 (PinChange 5 [g]) ?w5"
    using pre(5) [of e1 e2 e3 e4 e5] by simp
  have last: "fire e6 (PinChange 5 [g]) ?w5 =
      verifyPin e6 ds (?w5\<lparr>pin := [[a], [b], [c], [d], [f], [g]], error := ''''\<rparr>)"
    using fire_last_digit [of g ?w5 e6] dig(6) start(2) by (simp add: ds_eq)
  have full: "run (typing es ds) w =
      verifyPin e6 ds (?w5\<lparr>pin := [[a], [b], [c], [d], [f], [g]], error := ''''\<rparr>)"
    using typing_eq split6 last by simp
  have prefixes: "\<forall>k<6. trace (run (take k (typing es ds)) w) = trace w"
  proof (intro allI impI)
    fix k :: nat
    assume "k < 6"
    then consider "k = 0" | "k = 1" | "k = 2" | "k = 3" | "k = 4" | "k = 5"
      by linarith
    then show "trace (run (take k (typing es ds)) w) = trace w"
    proof cases
      case 1
      then show ?thesis by simp
    next
      case 2
      then show ?thesis using pre(1) [of e1] by (simp add: typing_eq)
    next
      case 3
      then have "take k ?t = [(e1, PinChange 0 [a]), (e2, PinChange 1 [b])]"
        by (simp add: eval_nat_numeral)
      then show ?thesis using pre(2) [of e1 e2] by (simp add: typing_eq)
    next
      case 4
      then have "take k ?t = [(e1, PinChange 0 [a]), (e2, PinChange 1 [b]), (e3, PinChange 2 [c])]"
        by (simp add: eval_nat_numeral)
      then show ?thesis using pre(3) [of e1 e2 e3] by (simp add: typing_eq)
    next
      case 5
      then have "take k ?t = [(e1, PinChange 0 [a]), (e2, PinChange 1 [b]), (e3, PinChange 2 [c]),
          (e4, PinChange 3 [d])]"
        by (simp add: eval_nat_numeral)
      then show ?thesis using pre(4) [of e1 e2 e3 e4] by (simp add: typing_eq)
    next
      case 6
      then have "take k ?t = [(e1, PinChange 0 [a]), (e2, PinChange 1 [b]), (e3, PinChange 2 [c]),
          (e4, PinChange 3 [d]), (e5, PinChange 4 [f])]"
        by (simp add: eval_nat_numeral)
      then show ?thesis using pre(5) [of e1 e2 e3 e4 e5] by (simp add: typing_eq)
    qed
  qed
  have once: "verify_calls (trace (run (typing es ds) w)) = verify_calls (trace w) + 1"
    by (simp add: full verifyPin_calls)
  have arg: "\<exists>rest. trace (run (typing es ds) w) = trace w @ VerifyPinCall ds # rest"
    using verifyPin_trace_prefix
      [of e6 ds "?w5\<lparr>pin := [[a], [b], [c], [d], [f], [g]], error := ''''\<rparr>"]
    by (simp add: full)
  show ?thesis
    using handlePinChange_calls [of e index v u] prefixes once arg by simp
qed

text \<open>Typing \<^verbatim>\<open>123456\<close> into the fresh gate: nothing after five digits, one call after six.\<close>

lemma verification_trigger_example:
  "trace (run (take 5 (typing (replicate 6 scenario_env) ''123456'')) (initial scenario_store)) = []
   \<and> verify_calls (trace (run (typing (replicate 6 scenario_env) ''123456'')
        (initial scenario_store))) = 1"
proof -
  have start: "pin (initial scenario_store) = empty_pin" "\<not> loading (initial scenario_store)"
    by (simp_all add: initial_def)
  have ds: "length ''123456'' = 6" "list_all is_digit ''123456''"
    by (simp_all add: is_digit_def)
  have es: "length (replicate 6 scenario_env) = 6"
    by simp
  have t: "trace (initial scenario_store) = []"
    by (simp add: initial_def)
  note th = verification_trigger [OF start ds es]
  from th have "\<forall>k<6. trace (run (take k (typing (replicate 6 scenario_env) ''123456''))
      (initial scenario_store)) = trace (initial scenario_store)"
    by blast
  then have five: "trace (run (take 5 (typing (replicate 6 scenario_env) ''123456''))
      (initial scenario_store)) = []"
    by (simp add: t)
  from th have "verify_calls (trace (run (typing (replicate 6 scenario_env) ''123456'')
        (initial scenario_store))) = verify_calls (trace (initial scenario_store)) + 1"
    by blast
  then have six: "verify_calls (trace (run (typing (replicate 6 scenario_env) ''123456'')
        (initial scenario_store))) = 1"
    by (simp add: t verify_calls_def)
  from five six show ?thesis by simp
qed

text \<open>
  Claim C4: exactly one verification call is issued per fully-completed 6-digit sequence,
  and none before all six positions are filled. The comment at line 52 promises the same
  (\<^verbatim>\<open>Auto-submit when all 6 digits entered\<close>), and the gate has no other way to
  submit. The code misses it: the guard also asks for \<^verbatim>\<open>index === 5\<close>, so when the
  sixth position is filled before the fifth, the session ends with all six digits entered
  and an empty trace. The fully completed sequence has issued no verification call.
\<close>

theorem completed_out_of_order:
  "pin (run out_of_order (mount scenario_env (initial scenario_store))) =
     [''1'', ''2'', ''3'', ''4'', ''5'', ''6'']
   \<and> \<not> loading (run out_of_order (mount scenario_env (initial scenario_store)))
   \<and> trace (run out_of_order (mount scenario_env (initial scenario_store))) = []
   \<and> verify_calls (trace (run out_of_order (mount scenario_env (initial scenario_store)))) = 0"
proof -
  have "pin (run out_of_order (mount scenario_env (initial scenario_store))) =
     [''1'', ''2'', ''3'', ''4'', ''5'', ''6'']
   \<and> \<not> loading (run out_of_order (mount scenario_env (initial scenario_store)))
   \<and> trace (run out_of_order (mount scenario_env (initial scenario_store))) = []"
    by (simp add: out_of_order_def run_defs scenario_defs)
  then show ?thesis
    by (simp add: verify_calls_def)
qed

subsection \<open>C5: the success callback\<close>

text \<open>
  Claim C5, as amended. Every grant (a success toast: after a PIN match, a biometric
  registration or a biometric assertion) invokes the success callback exactly once:
  over any session the number of invocations equals the number of grants, and one user
  event adds at most one invocation, together with its grant. The gate keeps no record of
  having granted, so a later successful verification in the same session invokes the
  callback again.
\<close>

theorem callback_once_per_grant:
  "invocations (trace (run evs (mount e0 (initial s)))) =
     grants (trace (run evs (mount e0 (initial s))))
   \<and> invocations (trace (fire e ev w)) \<le> invocations (trace w) + 1
   \<and> invocations (trace (fire e ev w)) + grants (trace w) =
       grants (trace (fire e ev w)) + invocations (trace w)"
proof -
  have start: "trace (mount e0 (initial s)) = []"
    by (simp add: mount_def checkBiometricAvailability_def initial_def split: option.splits)
  have session: "invocations (trace (run evs (mount e0 (initial s)))) =
     grants (trace (run evs (mount e0 (initial s))))"
    using run_grants [of evs "mount e0 (initial s)"]
    by (simp add: start invocations_def grants_def)
  obtain ext where ext: "trace (fire e ev w) = trace w @ ext" "one_grant_or_none ext"
    using fire_grant by blast
  then have step: "invocations (trace (fire e ev w)) \<le> invocations (trace w) + 1
   \<and> invocations (trace (fire e ev w)) + grants (trace w) =
       grants (trace (fire e ev w)) + invocations (trace w)"
    by (simp add: counts_append one_grant_or_none_def)
  from session step show ?thesis by simp
qed

text \<open>
  Claim C5 as stated fails: after the grant for \<^verbatim>\<open>123456\<close> (one invocation),
  deleting the sixth digit and typing it again, or pressing the biometric button with a
  credential on file, invokes the callback a second time in the same session.
\<close>

theorem second_grant_same_session:
  "invocations (trace (run in_order (mount scenario_env (initial scenario_store)))) = 1
   \<and> invocations (trace (run retyped_last (mount scenario_env (initial scenario_store)))) = 2
   \<and> invocations (trace (run (in_order @ [(scenario_env, BiometricClick)])
        (mount scenario_env (initial registered_store)))) = 2"
proof -
  have a: "trace (run in_order (mount scenario_env (initial scenario_store))) =
      [VerifyPinCall ''123456'', SelectPinHash ''ceo@example.com'',
       UpdateAudit ''ceo@example.com'' ''2025-01-01T00:00:00.000Z''
        (RpcBuilder ''increment'' 1),
       MessageSuccess ''Access Granted'', OnSuccess]"
    by (simp add: in_order_def run_defs scenario_defs)
  have b: "trace (run retyped_last (mount scenario_env (initial scenario_store))) =
      [VerifyPinCall ''123456'', SelectPinHash ''ceo@example.com'',
       UpdateAudit ''ceo@example.com'' ''2025-01-01T00:00:00.000Z''
        (RpcBuilder ''increment'' 1),
       MessageSuccess ''Access Granted'', OnSuccess,
       VerifyPinCall ''123456'', SelectPinHash ''ceo@example.com'',
       UpdateAudit ''ceo@example.com'' ''2025-01-01T00:00:00.000Z''
        (RpcBuilder ''increment'' 1),
       MessageSuccess ''Access Granted'', OnSuccess]"
    by (simp add: retyped_last_def in_order_def run_defs scenario_defs)
  have c: "trace (run (in_order @ [(scenario_env, BiometricClick)])
        (mount scenario_env (initial registered_store))) =
      [VerifyPinCall ''123456'', SelectPinHash ''ceo@example.com'',
       UpdateAudit ''ceo@example.com'' ''2025-01-01T00:00:00.000Z''
        (RpcBuilder ''increment'' 1),
       MessageSuccess ''Access Granted'', OnSuccess,
       SelectBiometric ''ceo@example.com'', CredentialsGet ''abc'',
       MessageSuccess ''Biometric verified'', OnSuccess]"
    by (simp add: in_order_def run_defs scenario_defs atob_YWJj)
  show ?thesis
    by (simp add: a b c invocations_def)
qed

subsection \<open>C6: a failed audit write\<close>

text \<open>
  Claim C6, as amended. After a successful PIN verification (the read is served, the
  stored hash matches) whose audit write fails: when the write ends in an error result,
  nothing is logged, no error is shown, and the toast and the success callback follow as
  after a write that was served; when the write raises, the exception is logged to the
  console, \<^verbatim>\<open>Authentication error\<close> is shown and the success callback is not
  invoked. Either way the table is unchanged.
\<close>

theorem audit_write_failure:
  assumes served: "select_pin_reply e = Answered"
    and row: "store w (userEmail e) = Some r"
    and match: "bcrypt_compare e p (pin_hash r)"
    and failed: "update_audit_reply e \<noteq> Answered"
  shows "trace (verifyPin e p w) =
           trace w @ [VerifyPinCall p, SelectPinHash (userEmail e),
                      UpdateAudit (userEmail e) (now e) (RpcBuilder ''increment'' 1)] @
             (if update_audit_reply e = Raised
              then [ConsoleError ''PIN verification error:'']
              else [MessageSuccess ''Access Granted'', OnSuccess])
         \<and> error (verifyPin e p w) =
           (if update_audit_reply e = Raised then ''Authentication error'' else '''')
         \<and> store (verifyPin e p w) = store w"
  using served row match failed
  by (cases "update_audit_reply e")
    (simp_all add: verifyPin_def audit_columns_def focus_input_def select_pin_hash_def update_row_def Let_def)

text \<open>The amended statement in the scenario, for a write that raises and one that is refused.\<close>

theorem audit_write_failure_witness:
  "trace (verifyPin (scenario_env\<lparr>update_audit_reply := Raised\<rparr>) ''123456''
       (initial scenario_store)) =
     [VerifyPinCall ''123456'', SelectPinHash ''ceo@example.com'',
      UpdateAudit ''ceo@example.com'' ''2025-01-01T00:00:00.000Z''
        (RpcBuilder ''increment'' 1),
      ConsoleError ''PIN verification error:'']
   \<and> error (verifyPin (scenario_env\<lparr>update_audit_reply := ErrorResult\<rparr>) ''123456''
       (initial scenario_store)) = ''''"
proof -
  let ?raised = "scenario_env\<lparr>update_audit_reply := Raised\<rparr>"
  let ?refused = "scenario_env\<lparr>update_audit_reply := ErrorResult\<rparr>"
  have s1: "select_pin_reply ?raised = Answered" and s2: "select_pin_reply ?refused = Answered"
    by (simp_all add: scenario_env_def)
  have r1: "store (initial scenario_store) (userEmail ?raised) = Some scenario_record"
    and r2: "store (initial scenario_store) (userEmail ?refused) = Some scenario_record"
    by (simp_all add: initial_def scenario_store_def scenario_env_def)
  have m1: "bcrypt_compare ?raised ''123456'' (pin_hash scenario_record)"
    and m2: "bcrypt_compare ?refused ''123456'' (pin_hash scenario_record)"
    by (simp_all add: scenario_env_def scenario_record_def)
  have f1: "update_audit_reply ?raised \<noteq> Answered"
    and f2: "update_audit_reply ?refused \<noteq> Answered"
    by simp_all
  have t: "trace (initial scenario_store) = []"
    by (simp add: initial_def)
  show ?thesis
    using audit_write_failure [OF s1 r1 m1 f1] audit_write_failure [OF s2 r2 m2 f2]
    by (simp add: t scenario_env_def)
qed

text \<open>
  Claim C6 as stated fails both ways: a refused audit write leaves no console entry in
  the trace, and an audit write that raises is shown to the user and ends the attempt
  without the success callback.
\<close>

theorem audit_write_failure_unlogged:
  "trace (verifyPin (scenario_env\<lparr>update_audit_reply := ErrorResult\<rparr>) ''123456''
       (initial scenario_store)) =
     [VerifyPinCall ''123456'', SelectPinHash ''ceo@example.com'',
      UpdateAudit ''ceo@example.com'' ''2025-01-01T00:00:00.000Z''
        (RpcBuilder ''increment'' 1),
      MessageSuccess ''Access Granted'', OnSuccess]
   \<and> trace (verifyPin (scenario_env\<lparr>update_audit_reply := Raised\<rparr>) ''123456''
       (initial scenario_store)) =
     [VerifyPinCall ''123456'', SelectPinHash ''ceo@example.com'',
      UpdateAudit ''ceo@example.com'' ''2025-01-01T00:00:00.000Z''
        (RpcBuilder ''increment'' 1),
      ConsoleError ''PIN verification error:'']
   \<and> error (verifyPin (scenario_env\<lparr>update_audit_reply := Raised\<rparr>) ''123456''
       (initial scenario_store)) = ''Authentication error''"
  by (simp add: verifyPin_def audit_columns_def focus_input_def select_pin_hash_def update_row_def Let_def initial_def
      scenario_env_def scenario_store_def scenario_record_def)

subsection \<open>C7: the biometric option and the capability probe\<close>

text \<open>
  Claim C7. When \<^verbatim>\<open>window.PublicKeyCredential\<close> is absent, or the capability
  probe resolves to false, the biometric block is not rendered after the mount effect
  nor after any sequence of user events, whatever the table holds (so also when the row
  has stored biometric fields).
\<close>

theorem probe_negative_hides_biometric:
  assumes "\<not> PublicKeyCredential e0
      \<or> isUserVerifyingPlatformAuthenticatorAvailable e0 = Some False"
  shows "\<not> biometric_option (render (run evs (mount e0 (initial s))))"
proof -
  have "\<not> biometricAvailable (mount e0 (initial s))"
    using assms by (auto simp add: mount_def checkBiometricAvailability_def initial_def)
  then show ?thesis
    by (simp add: render_def run_biometricAvailable)
qed

text \<open>A negative probe, a row with biometric fields, and a click where the button would be.\<close>

theorem probe_negative_hides_biometric_witness:
  "isUserVerifyingPlatformAuthenticatorAvailable
      (scenario_env\<lparr>isUserVerifyingPlatformAuthenticatorAvailable := Some False\<rparr>) = Some False
   \<and> \<not> biometric_option (render (run [(scenario_env, BiometricClick)]
        (mount (scenario_env\<lparr>isUserVerifyingPlatformAuthenticatorAvailable := Some False\<rparr>)
           (initial registered_store))))"
proof -
  have probe: "\<not> PublicKeyCredential
        (scenario_env\<lparr>isUserVerifyingPlatformAuthenticatorAvailable := Some False\<rparr>)
      \<or> isUserVerifyingPlatformAuthenticatorAvailable
        (scenario_env\<lparr>isUserVerifyingPlatformAuthenticatorAvailable := Some False\<rparr>) = Some False"
    by simp
  show ?thesis
    using probe_negative_hides_biometric
      [OF probe, of "[(scenario_env, BiometricClick)]" registered_store]
    by simp
qed

subsection \<open>C8: registration or assertion\<close>

text \<open>
  What the flow does when its read of the biometric fields is served. With a non-empty
  credential id on file it requests no registration and leaves the table as it is; the
  assertion ceremony is requested only when \<^verbatim>\<open>atob\<close> decodes the stored id. With
  none on file it requests a registration and no assertion. When that registration
  returns a credential whose id and attestation object are non-empty and the update is
  served for an existing row, the row's stored credential id and public key are both
  non-empty afterward.
\<close>

lemma biometric_dispatch:
  assumes served: "select_biometric_reply e = Answered"
  shows "(case credential_id_on_file (store w) (userEmail e) of
            Some cid \<Rightarrow>
              registrations (trace (handleBiometricAuth e w)) = registrations (trace w)
              \<and> assertions (trace (handleBiometricAuth e w)) =
                  assertions (trace w) + (if atob cid = None then 0 else 1)
              \<and> store (handleBiometricAuth e w) = store w
          | None \<Rightarrow>
              registrations (trace (handleBiometricAuth e w)) = registrations (trace w) + 1
              \<and> assertions (trace (handleBiometricAuth e w)) = assertions (trace w))
         \<and> (credential_id_on_file (store w) (userEmail e) = None
              \<and> store w (userEmail e) = Some r
              \<and> credentials_create e (userEmail e) = CeremonyResult c
              \<and> credential_id c \<noteq> '''' \<and> attestationObject c \<noteq> ''''
              \<and> update_biometric_reply e = Answered \<longrightarrow>
            store (handleBiometricAuth e w) (userEmail e) =
              Some (r\<lparr>biometric_credential_id := Some (credential_id c),
                      biometric_public_key := Some (btoa (attestationObject c))\<rparr>)
            \<and> btoa (attestationObject c) \<noteq> ''''
            \<and> credential_id_on_file (store (handleBiometricAuth e w)) (userEmail e) =
                Some (credential_id c))"
proof -
  let ?w = "w\<lparr>loading := True, error := '''', trace := trace w @ [SelectBiometric (userEmail e)]\<rparr>"
  have counts: "registrations (trace ?w) = registrations (trace w)"
    "assertions (trace ?w) = assertions (trace w)"
    by (simp_all add: registrations_def assertions_def)
  have dispatch: "handleBiometricAuth e w =
      (case credential_id_on_file (store w) (userEmail e) of
         None \<Rightarrow> registerBiometric e ?w
       | Some cid \<Rightarrow> authenticateBiometric e cid ?w)"
    using served
    by (simp add: handleBiometricAuth_def select_biometric_def credential_id_on_file_def Let_def
        split: option.split)
  have first: "case credential_id_on_file (store w) (userEmail e) of
            Some cid \<Rightarrow>
              registrations (trace (handleBiometricAuth e w)) = registrations (trace w)
              \<and> assertions (trace (handleBiometricAuth e w)) =
                  assertions (trace w) + (if atob cid = None then 0 else 1)
              \<and> store (handleBiometricAuth e w) = store w
          | None \<Rightarrow>
              registrations (trace (handleBiometricAuth e w)) = registrations (trace w) + 1
              \<and> assertions (trace (handleBiometricAuth e w)) = assertions (trace w)"
  proof (cases "credential_id_on_file (store w) (userEmail e)")
    case None
    with dispatch registerBiometric_ceremonies [of e ?w] counts show ?thesis by simp
  next
    case (Some cid)
    with dispatch authenticateBiometric_ceremonies [of e cid ?w] counts show ?thesis by simp
  qed
  have second: "store (handleBiometricAuth e w) (userEmail e) =
              Some (r\<lparr>biometric_credential_id := Some (credential_id c),
                      biometric_public_key := Some (btoa (attestationObject c))\<rparr>)
            \<and> btoa (attestationObject c) \<noteq> ''''
            \<and> credential_id_on_file (store (handleBiometricAuth e w)) (userEmail e) =
                Some (credential_id c)"
    if none: "credential_id_on_file (store w) (userEmail e) = None"
      and row: "store w (userEmail e) = Some r"
      and made: "credentials_create e (userEmail e) = CeremonyResult c"
      and filled: "credential_id c \<noteq> ''''" "attestationObject c \<noteq> ''''"
      and written: "update_biometric_reply e = Answered"
  proof -
    have row': "store ?w (userEmail e) = Some r" using row by simp
    have stored: "store (handleBiometricAuth e w) (userEmail e) =
              Some (r\<lparr>biometric_credential_id := Some (credential_id c),
                      biometric_public_key := Some (btoa (attestationObject c))\<rparr>)"
      using dispatch none registerBiometric_stores [OF row' made written] by simp
    from stored filled(1)
    have "credential_id_on_file (store (handleBiometricAuth e w)) (userEmail e) =
                Some (credential_id c)"
      by (simp add: credential_id_on_file_def)
    with stored btoa_nonempty [OF filled(2)] show ?thesis by simp
  qed
  from first second show ?thesis by blast
qed

text \<open>
  In the scenario: with a credential on file one assertion and no registration; with none
  on file one registration, after which the row holds the credential id and the encoded
  attestation object.
\<close>

lemma biometric_dispatch_example:
  "registrations (trace (handleBiometricAuth scenario_env (initial registered_store))) = 0
   \<and> assertions (trace (handleBiometricAuth scenario_env (initial registered_store))) = 1
   \<and> registrations (trace (handleBiometricAuth scenario_env (initial scenario_store))) = 1
   \<and> store (handleBiometricAuth scenario_env (initial scenario_store)) ''ceo@example.com'' =
       Some registered_record"
proof -
  have served: "select_biometric_reply scenario_env = Answered"
    by (simp add: scenario_env_def)
  have email: "userEmail scenario_env = ''ceo@example.com''"
    by (simp add: scenario_env_def)
  have on_file: "credential_id_on_file (store (initial registered_store)) ''ceo@example.com'' =
      Some ''YWJj''"
    by (simp add: credential_id_on_file_def scenario_defs)
  have t: "trace (initial registered_store) = []" "trace (initial scenario_store) = []"
    by (simp_all add: initial_def)
  have first: "registrations (trace (handleBiometricAuth scenario_env (initial registered_store))) = 0
   \<and> assertions (trace (handleBiometricAuth scenario_env (initial registered_store))) = 1"
    using biometric_dispatch [OF served, of "initial registered_store"]
    by (simp add: email on_file atob_YWJj t registrations_def assertions_def)
  have none: "credential_id_on_file (store (initial scenario_store)) ''ceo@example.com'' = None"
    by (simp add: credential_id_on_file_def scenario_defs)
  have row: "store (initial scenario_store) ''ceo@example.com'' = Some scenario_record"
    by (simp add: scenario_defs)
  have made: "credentials_create scenario_env ''ceo@example.com'' =
      CeremonyResult \<lparr>credential_id = ''YWJj'', attestationObject = ''xyz''\<rparr>"
    by (simp add: scenario_env_def)
  have written: "update_biometric_reply scenario_env = Answered"
    by (simp add: scenario_env_def)
  have second: "registrations (trace (handleBiometricAuth scenario_env (initial scenario_store))) = 1
   \<and> store (handleBiometricAuth scenario_env (initial scenario_store)) ''ceo@example.com'' =
       Some registered_record"
    using biometric_dispatch [OF served, of "initial scenario_store" scenario_record
        "\<lparr>credential_id = ''YWJj'', attestationObject = ''xyz''\<rparr>"]
    by (simp add: email none row made written t registrations_def registered_record_def
        b64_char_def b64_alphabet_def)
  from first second show ?thesis by simp
qed

text \<open>
  Claim C8: with a credential id on file the flow attempts an assertion ceremony and
  never a second registration; with none on file it attempts a registration, after whose
  success the stored credential id and public key are both non-empty. The code attempts
  this and misses it in three places. \<^verbatim>\<open>registerBiometric\<close> stores
  \<^verbatim>\<open>credential.id\<close>, which is base64url, and \<^verbatim>\<open>authenticateBiometric\<close> decodes
  it with \<^verbatim>\<open>atob\<close> (line 181): after a registration that returned the id
  \<^verbatim>\<open>ab-d\<close>, the next invocation throws while it builds the request, and no
  assertion ceremony is requested. \<^verbatim>\<open>handleBiometricAuth\<close> does not look at the
  read's error (line 116; \<^verbatim>\<open>verifyPin\<close> does at line 76): a read that ends in an
  error result, with a credential id on file, runs a second registration.
  \<^verbatim>\<open>registerBiometric\<close> discards the update's result (lines 157 to 166): with no
  row for the identifier the registration is reported as a success and nothing is stored.
\<close>

theorem biometric_flow_failures:
  "trace (run [(urlsafe_env, BiometricClick), (urlsafe_env, BiometricClick)]
       (mount urlsafe_env (initial scenario_store))) =
     [SelectBiometric ''ceo@example.com'', CredentialsCreate ''ceo@example.com'',
      UpdateBiometric ''ceo@example.com'' ''ab-d'' ''eHl6'',
      MessageSuccess ''Biometric registered successfully'', OnSuccess,
      SelectBiometric ''ceo@example.com'', ConsoleError ''Biometric authentication error:'']
   \<and> error (run [(urlsafe_env, BiometricClick), (urlsafe_env, BiometricClick)]
       (mount urlsafe_env (initial scenario_store))) = ''Biometric verification failed''
   \<and> credential_id_on_file (store (initial registered_store)) ''ceo@example.com'' =
       Some ''YWJj''
   \<and> trace (handleBiometricAuth (scenario_env\<lparr>select_biometric_reply := ErrorResult\<rparr>)
        (initial registered_store)) =
     [SelectBiometric ''ceo@example.com'', CredentialsCreate ''ceo@example.com'',
      UpdateBiometric ''ceo@example.com'' ''YWJj'' ''eHl6'',
      MessageSuccess ''Biometric registered successfully'', OnSuccess]
   \<and> trace (handleBiometricAuth scenario_env (initial Map.empty)) =
     [SelectBiometric ''ceo@example.com'', CredentialsCreate ''ceo@example.com'',
      UpdateBiometric ''ceo@example.com'' ''YWJj'' ''eHl6'',
      MessageSuccess ''Biometric registered successfully'', OnSuccess]
   \<and> store (handleBiometricAuth scenario_env (initial Map.empty)) ''ceo@example.com'' = None"
proof -
  have a: "trace (run [(urlsafe_env, BiometricClick), (urlsafe_env, BiometricClick)]
       (mount urlsafe_env (initial scenario_store))) =
     [SelectBiometric ''ceo@example.com'', CredentialsCreate ''ceo@example.com'',
      UpdateBiometric ''ceo@example.com'' ''ab-d'' ''eHl6'',
      MessageSuccess ''Biometric registered successfully'', OnSuccess,
      SelectBiometric ''ceo@example.com'', ConsoleError ''Biometric authentication error:'']
   \<and> error (run [(urlsafe_env, BiometricClick), (urlsafe_env, BiometricClick)]
       (mount urlsafe_env (initial scenario_store))) = ''Biometric verification failed''"
    by (simp add: run_defs scenario_defs b64_char_def b64_alphabet_def atob_urlsafe)
  have b: "credential_id_on_file (store (initial registered_store)) ''ceo@example.com'' =
       Some ''YWJj''
   \<and> trace (handleBiometricAuth (scenario_env\<lparr>select_biometric_reply := ErrorResult\<rparr>)
        (initial registered_store)) =
     [SelectBiometric ''ceo@example.com'', CredentialsCreate ''ceo@example.com'',
      UpdateBiometric ''ceo@example.com'' ''YWJj'' ''eHl6'',
      MessageSuccess ''Biometric registered successfully'', OnSuccess]"
    by (simp add: run_defs scenario_defs credential_id_on_file_def b64_char_def
        b64_alphabet_def)
  have c: "trace (handleBiometricAuth scenario_env (initial Map.empty)) =
     [SelectBiometric ''ceo@example.com'', CredentialsCreate ''ceo@example.com'',
      UpdateBiometric ''ceo@example.com'' ''YWJj'' ''eHl6'',
      MessageSuccess ''Biometric registered successfully'', OnSuccess]
   \<and> store (handleBiometricAuth scenario_env (initial Map.empty)) ''ceo@example.com'' = None"
    by (simp add: run_defs scenario_defs b64_char_def b64_alphabet_def)
  from a b c show ?thesis by simp
qed

subsection \<open>C9: input discipline of a digit position\<close>

text \<open>
  Claim C9. For an input event on one of the six positions: a value longer than one
  character, or a single character that is not a digit, leaves the whole gate as it was
  (the position keeps its value, no error is set, nothing leaves the component). A single
  digit entered at one of the first five positions is stored there, clears the error and
  moves the focus to the next position. A single digit entered at the sixth position,
  which has no next position, is stored there before anything else happens: the gate
  with the digit stored is the result, or is what the verifier is called on when the six
  positions are then all filled.
\<close>

theorem pin_input_discipline:
  assumes len: "length (pin w) = 6" and pos: "index < 6"
  shows "(1 < length v \<or> (\<exists>c. v = [c] \<and> \<not> is_digit c) \<longrightarrow>
            handlePinChange e index v w = w)
         \<and> (is_digit d \<and> index < 5 \<longrightarrow>
            pin (handlePinChange e index [d] w) = (pin w)[index := [d]]
            \<and> pin (handlePinChange e index [d] w) ! index = [d]
            \<and> focused (handlePinChange e index [d] w) = Some (index + 1)
            \<and> error (handlePinChange e index [d] w) = ''''
            \<and> trace (handlePinChange e index [d] w) = trace w)
         \<and> (is_digit d \<and> index = 5 \<longrightarrow>
            handlePinChange e index [d] w =
              (if list_all (\<lambda>digit. digit \<noteq> '''') ((pin w)[5 := [d]])
               then verifyPin e (concat ((pin w)[5 := [d]]))
                      (w\<lparr>pin := (pin w)[5 := [d]], error := ''''\<rparr>)
               else w\<lparr>pin := (pin w)[5 := [d]], error := ''''\<rparr>))"
proof -
  have rejected: "1 < length v \<or> (\<exists>c. v = [c] \<and> \<not> is_digit c) \<longrightarrow>
            handlePinChange e index v w = w"
    by (auto simp add: handlePinChange_def single_digit_def)
  have advance: "is_digit d \<and> index < 5 \<longrightarrow>
            pin (handlePinChange e index [d] w) = (pin w)[index := [d]]
            \<and> pin (handlePinChange e index [d] w) ! index = [d]
            \<and> focused (handlePinChange e index [d] w) = Some (index + 1)
            \<and> error (handlePinChange e index [d] w) = ''''
            \<and> trace (handlePinChange e index [d] w) = trace w"
    using len by (simp add: handlePinChange_def single_digit_def Let_def)
  have last: "is_digit d \<and> index = 5 \<longrightarrow>
            handlePinChange e index [d] w =
              (if list_all (\<lambda>digit. digit \<noteq> '''') ((pin w)[5 := [d]])
               then verifyPin e (concat ((pin w)[5 := [d]]))
                      (w\<lparr>pin := (pin w)[5 := [d]], error := ''''\<rparr>)
               else w\<lparr>pin := (pin w)[5 := [d]], error := ''''\<rparr>)"
    by (simp add: handlePinChange_def single_digit_def Let_def)
  from rejected advance last show ?thesis by blast
qed

text \<open>A letter and a two-character value are rejected; a digit is stored and the focus moves.\<close>

theorem pin_input_discipline_witness:
  "handlePinChange scenario_env 2 ''x'' entered_world = entered_world
   \<and> handlePinChange scenario_env 2 ''12'' entered_world = entered_world
   \<and> pin (handlePinChange scenario_env 2 ''7'' (initial scenario_store)) =
       ['''', '''', ''7'', '''', '''', '''']
   \<and> focused (handlePinChange scenario_env 2 ''7'' (initial scenario_store)) = Some 3
   \<and> pin (handlePinChange scenario_env 5 ''7'' (initial scenario_store)) =
       ['''', '''', '''', '''', '''', ''7'']"
proof -
  have l1: "length (pin entered_world) = 6" and l2: "length (pin (initial scenario_store)) = 6"
    by (simp_all add: entered_world_def initial_def empty_pin_def)
  have p2: "(2::nat) < 6" and p5: "(5::nat) < 6"
    by simp_all
  have x: "\<not> is_digit CHR ''x''" and d: "is_digit CHR ''7''"
    by (simp_all add: is_digit_def)
  have p: "pin (initial scenario_store) = ['''', '''', '''', '''', '''', '''']"
    by (simp add: initial_def empty_pin_def)
  have a: "handlePinChange scenario_env 2 ''x'' entered_world = entered_world"
    using pin_input_discipline [OF l1 p2, where v = "''x''" and e = scenario_env] x by simp
  have b: "handlePinChange scenario_env 2 ''12'' entered_world = entered_world"
    using pin_input_discipline [OF l1 p2, where v = "''12''" and e = scenario_env] by simp
  have c: "pin (handlePinChange scenario_env 2 ''7'' (initial scenario_store)) =
       ['''', '''', ''7'', '''', '''', '''']
     \<and> focused (handlePinChange scenario_env 2 ''7'' (initial scenario_store)) = Some 3"
    using pin_input_discipline [OF l2 p2, where d = "CHR ''7''" and e = scenario_env] d
    by (simp add: p)
  have e: "pin (handlePinChange scenario_env 5 ''7'' (initial scenario_store)) =
       ['''', '''', '''', '''', '''', ''7'']"
    using pin_input_discipline [OF l2 p5, where d = "CHR ''7''" and e = scenario_env] d
    by (simp add: p)
  from a b c e show ?thesis by simp
qed

subsection \<open>C10: the stored public key in the assertion path\<close>

text \<open>
  Claim C10. In the assertion path (the read is served and a non-empty credential id is
  on file) the stored public key decides nothing: for two tables that differ only in the
  row's stored public key, the flow ends in the same component state with the same trace
  (the same ceremony request, toast, console output and callback), and leaves each table
  as it found it.
\<close>

theorem public_key_not_used:
  assumes served: "select_biometric_reply e = Answered"
    and on_file: "biometric_credential_id r = Some cid" "cid \<noteq> ''''"
  shows "observable (handleBiometricAuth e (w\<lparr>store := s(userEmail e \<mapsto> r)\<rparr>)) =
         observable (handleBiometricAuth e
           (w\<lparr>store := s(userEmail e \<mapsto> r\<lparr>biometric_public_key := k\<rparr>)\<rparr>))
       \<and> store (handleBiometricAuth e (w\<lparr>store := s(userEmail e \<mapsto> r)\<rparr>)) =
           s(userEmail e \<mapsto> r)
       \<and> store (handleBiometricAuth e
           (w\<lparr>store := s(userEmail e \<mapsto> r\<lparr>biometric_public_key := k\<rparr>)\<rparr>)) =
           s(userEmail e \<mapsto> r\<lparr>biometric_public_key := k\<rparr>)"
proof (cases "atob cid")
  case None
  with served on_file show ?thesis
    by (simp add: handleBiometricAuth_def select_biometric_def authenticateBiometric_def
        observable_def Let_def)
next
  case (Some bytes)
  with served on_file show ?thesis
    by (cases "credentials_get e bytes")
      (simp_all add: handleBiometricAuth_def select_biometric_def authenticateBiometric_def
        observable_def Let_def)
qed

text \<open>The registered row against the same row with another stored public key.\<close>

theorem public_key_not_used_witness:
  "observable (handleBiometricAuth scenario_env
      ((initial Map.empty)\<lparr>store := Map.empty(userEmail scenario_env \<mapsto> registered_record)\<rparr>)) =
   observable (handleBiometricAuth scenario_env
      ((initial Map.empty)\<lparr>store := Map.empty(userEmail scenario_env \<mapsto>
         registered_record\<lparr>biometric_public_key := Some ''AAAA''\<rparr>)\<rparr>))"
proof -
  have served: "select_biometric_reply scenario_env = Answered"
    by (simp add: scenario_env_def)
  have on_file: "biometric_credential_id registered_record = Some ''YWJj''" "''YWJj'' \<noteq> ''''"
    by (simp_all add: registered_record_def)
  show ?thesis
    using public_key_not_used [OF served on_file, where w = "initial Map.empty" and s = Map.empty
        and k = "Some ''AAAA''"]
    by simp
qed

end
